theory Spec2Isabelle
  imports Complex_Main
begin

section \<open>The hazard-models notebook\<close>

text \<open>
  The source is the executed notebook \<^verbatim>\<open>stat/hazard_models.py\<close>: six code cells
  \<^verbatim>\<open>In[1]\<close> .. \<^verbatim>\<open>In[6]\<close>, each a straight-line sequence of statements that call
  into NumPy, SciPy, Matplotlib and lifelines. The cells share one kernel namespace.

  Python floats are modelled by \<^typ>\<open>real\<close>: every array operation below is the
  exact real-valued function that the NumPy routine approximates in binary64.
\<close>

subsection \<open>Array routines of NumPy that the cells call\<close>

text \<open>
  \<^verbatim>\<open>np.linspace(start, stop, num)\<close> with the default \<^verbatim>\<open>endpoint=True\<close>:
  \<^verbatim>\<open>step = (stop - start) / (num - 1)\<close>, \<^verbatim>\<open>y = arange(0, num) * step + start\<close>, and
  for \<^verbatim>\<open>num > 1\<close> the last entry is overwritten by \<^verbatim>\<open>stop\<close>.
\<close>

definition linspace :: "real \<Rightarrow> real \<Rightarrow> nat \<Rightarrow> real list" where
  "linspace start stop num =
     (if num = 0 then []
      else if num = 1 then [start]
      else (map (\<lambda>i. real i * ((stop - start) / real (num - 1)) + start) [0..<num])
             [num - 1 := stop])"

text \<open>\<^verbatim>\<open>np.logspace(start, stop, num)\<close> is \<^verbatim>\<open>10 ** linspace(start, stop, num)\<close>.\<close>

definition logspace :: "real \<Rightarrow> real \<Rightarrow> nat \<Rightarrow> real list" where
  "logspace start stop num = map (\<lambda>y. 10 powr y) (linspace start stop num)"

text \<open>\<^verbatim>\<open>np.ones(n)\<close>.\<close>

definition ones :: "nat \<Rightarrow> real list" where
  "ones n = replicate n 1"

subsection \<open>The constant-risk model of cell In[3]\<close>

text \<open>Line 130: \<^verbatim>\<open>m0 = 0.1\<close>.\<close>

definition m0 :: real where
  "m0 = 1 / 10"

text \<open>Line 127: \<^verbatim>\<open>t = np.linspace(0, 20, 200)\<close>.\<close>

definition risk_grid :: "real list" where
  "risk_grid = linspace 0 20 200"

text \<open>Line 132, the left panel: \<^verbatim>\<open>np.ones(len(t)) * m0\<close>.\<close>

definition mortality_curve :: "real \<Rightarrow> real list \<Rightarrow> real list" where
  "mortality_curve m ts = map (\<lambda>y. y * m) (ones (length ts))"

text \<open>
  Line 136, the right panel: \<^verbatim>\<open>np.exp(-m0*t)\<close>, computed entry by entry;
  \<open>survival m\<close> is the function applied to one entry.
\<close>

definition survival :: "real \<Rightarrow> real \<Rightarrow> real" where
  "survival m x = exp (- m * x)"

definition survival_curve :: "real \<Rightarrow> real list \<Rightarrow> real list" where
  "survival_curve m ts = map (survival m) ts"

subsection \<open>Values, errors and the kernel state\<close>

text \<open>The exceptions a cell can end with.\<close>

datatype error =
    NameError string
  | AttributeError string
  | TypeError string
  | ValueError string
  | IndexError
  | ImportError string
  | LibraryError string

type_synonym rgba = "real \<times> real \<times> real \<times> real"

text \<open>
  The global generator behind \<^verbatim>\<open>np.random\<close>. Its state is determined by how it was
  last initialised (from operating-system entropy when the kernel starts, or by
  \<^verbatim>\<open>np.random.seed\<close>) and by the number of normal variates drawn since.
\<close>

datatype rng_source = Entropy nat | Seeded nat

record rng_state =
  source :: rng_source
  drawn :: nat

text \<open>A free-standing \<^verbatim>\<open>Line2D(xdata, ydata, color=..., lw=...)\<close> artist.\<close>

record line2d =
  xdata :: "real list"
  ydata :: "real list"
  color :: rgba
  lw :: real

text \<open>
  One panel of a figure. \<open>cycle\<close> is the colour cycle the panel took from
  \<^verbatim>\<open>rcParams['axes.prop_cycle']\<close> when it was created; the \<open>k\<close>-th curve is drawn
  in the \<open>k\<close>-th colour of the cycle.
\<close>

record axes =
  xlabel :: string
  ylabel :: string
  cycle :: "rgba list"
  curves :: "(real list \<times> real list) list"
  legend :: "(line2d list \<times> string list) option"

record figure =
  figsize :: "(real \<times> real) option"
  panels :: "axes list"

type_synonym dataframe = "(string \<times> string list) list"

text \<open>
  The Python values the cells bind to names. \<open>ObjV\<close> is a module, function or
  class of a library, named by its qualified name. An array of panels
  (\<^verbatim>\<open>plt.subplots(1, 2)\<close>) is a \<open>ListV\<close> of \<open>AxesV\<close>.
\<close>

datatype pyval =
    IntV int
  | FloatV real
  | ArrayV "real list"
  | Array2V "real list list"
  | ListV "pyval list"
  | ObjV string
  | FrozenV real real
  | FigureV nat
  | AxesV nat nat
  | LineV nat nat nat
  | ArtistV line2d
  | FrameV dataframe

text \<open>
  The state of the kernel between statements: the namespace shared by the cells,
  the NumPy generator, the plotting style, the figures rendered so far, the values
  shown as \<^verbatim>\<open>Out[n]\<close>, and the trace of the library calls made, each with the
  exception it raised, if any.
\<close>

record state =
  env :: "string \<Rightarrow> pyval option"
  rng :: rng_state
  prop_cycle :: "rgba list"
  figures :: "figure list"
  displayed :: "pyval list"
  calls :: "(string \<times> error option) list"

text \<open>
  What the libraries compute is not part of the notebook and is a parameter:
  the normal quantile and distribution functions of SciPy (arguments \<open>q loc scale\<close>
  and \<open>x loc scale\<close>), the stream of standard normal variates that NumPy's generator
  yields from a given initialisation, Matplotlib's \<^verbatim>\<open>coolwarm\<close> colour map, the
  Waltons dataset bundled with lifelines, and \<open>faults\<close>: which library call, by its
  position in the trace and its name, raises which exception.
\<close>

record library =
  norm_ppf :: "real \<Rightarrow> real \<Rightarrow> real \<Rightarrow> real"
  norm_cdf :: "real \<Rightarrow> real \<Rightarrow> real \<Rightarrow> real"
  standard_normal :: "rng_source \<Rightarrow> nat \<Rightarrow> real"
  coolwarm :: "real \<Rightarrow> rgba"
  waltons :: dataframe
  faults :: "nat \<Rightarrow> string \<Rightarrow> error option"

definition no_faults :: "library \<Rightarrow> bool" where
  "no_faults L = (\<forall>k nm. faults L k nm = None)"

subsection \<open>Statements: state passing with exceptions\<close>

type_synonym 'a py = "state \<Rightarrow> (error + 'a) \<times> state"

definition py_return :: "'a \<Rightarrow> 'a py" where
  "py_return x = (\<lambda>s. (Inr x, s))"

definition py_raise :: "error \<Rightarrow> 'a py" where
  "py_raise e = (\<lambda>s. (Inl e, s))"

definition py_bind :: "'a py \<Rightarrow> ('a \<Rightarrow> 'b py) \<Rightarrow> 'b py" where
  "py_bind m f = (\<lambda>s. case m s of (Inl e, s') \<Rightarrow> (Inl e, s') | (Inr x, s') \<Rightarrow> f x s')"

text \<open>A cell body: statements in order, stopping at the first exception.\<close>

fun py_seq :: "unit py list \<Rightarrow> unit py" where
  "py_seq [] = py_return ()"
| "py_seq (m # ms) = py_bind m (\<lambda>_. py_seq ms)"

text \<open>Reading an unbound name raises \<^verbatim>\<open>NameError\<close>.\<close>

definition lookup :: "string \<Rightarrow> pyval py" where
  "lookup x = (\<lambda>s. case env s x of None \<Rightarrow> (Inl (NameError x), s) | Some v \<Rightarrow> (Inr v, s))"

definition assign :: "string \<Rightarrow> pyval \<Rightarrow> unit py" where
  "assign x v = (\<lambda>s. (Inr (), s\<lparr>env := (env s)(x \<mapsto> v)\<rparr>))"

text \<open>
  A call into a library: it is recorded in the trace; if the library raises there,
  the exception is the outcome, otherwise the effect \<open>body\<close> of the call happens.
\<close>

definition lib_call :: "library \<Rightarrow> string \<Rightarrow> 'a py \<Rightarrow> 'a py" where
  "lib_call L nm body = (\<lambda>s.
     case faults L (length (calls s)) nm of
       Some e \<Rightarrow> (Inl e, s\<lparr>calls := calls s @ [(nm, Some e)]\<rparr>)
     | None \<Rightarrow> body (s\<lparr>calls := calls s @ [(nm, None)]\<rparr>))"

text \<open>
  Using a value as the library object \<open>nm\<close>: taking an attribute of anything else
  raises \<^verbatim>\<open>AttributeError\<close>, calling anything else raises \<^verbatim>\<open>TypeError\<close>.
\<close>

definition attr_of :: "string \<Rightarrow> pyval \<Rightarrow> unit py" where
  "attr_of nm v = (if v = ObjV nm then py_return () else py_raise (AttributeError nm))"

definition call_of :: "string \<Rightarrow> pyval \<Rightarrow> unit py" where
  "call_of nm v = (if v = ObjV nm then py_return () else py_raise (TypeError nm))"

text \<open>\<open>the_module x nm\<close>: the name \<open>x\<close> read as the module \<open>nm\<close>, as in \<^verbatim>\<open>np.linspace\<close>.\<close>

definition the_module :: "string \<Rightarrow> string \<Rightarrow> unit py" where
  "the_module x nm = py_bind (lookup x) (attr_of nm)"

definition as_int :: "pyval \<Rightarrow> int py" where
  "as_int v = (case v of IntV n \<Rightarrow> py_return n | _ \<Rightarrow> py_raise (TypeError ''int''))"

definition as_float :: "pyval \<Rightarrow> real py" where
  "as_float v = (case v of FloatV x \<Rightarrow> py_return x | IntV n \<Rightarrow> py_return (of_int n)
     | _ \<Rightarrow> py_raise (TypeError ''float''))"

definition as_array :: "pyval \<Rightarrow> real list py" where
  "as_array v = (case v of ArrayV xs \<Rightarrow> py_return xs | _ \<Rightarrow> py_raise (TypeError ''array''))"

definition as_frozen :: "pyval \<Rightarrow> (real \<times> real) py" where
  "as_frozen v = (case v of FrozenV loc scale \<Rightarrow> py_return (loc, scale)
     | _ \<Rightarrow> py_raise (AttributeError ''cdf''))"

definition as_axes :: "pyval \<Rightarrow> (nat \<times> nat) py" where
  "as_axes v = (case v of AxesV k j \<Rightarrow> py_return (k, j)
     | _ \<Rightarrow> py_raise (AttributeError ''Axes''))"

text \<open>\<^verbatim>\<open>v[i]\<close> for a literal index \<open>i \<ge> 0\<close>.\<close>

definition subscript :: "pyval \<Rightarrow> nat \<Rightarrow> pyval py" where
  "subscript v i = (case v of
       ListV vs \<Rightarrow> if i < length vs then py_return (vs ! i) else py_raise IndexError
     | _ \<Rightarrow> py_raise (TypeError ''subscript''))"

text \<open>
  The target of a plotting statement: \<^verbatim>\<open>ax\<close> (\<open>None\<close>) or \<^verbatim>\<open>ax[i]\<close> (\<open>Some i\<close>).
\<close>

definition axes_expr :: "nat option \<Rightarrow> (nat \<times> nat) py" where
  "axes_expr tgt = py_bind (lookup ''ax'') (\<lambda>v.
     case tgt of None \<Rightarrow> as_axes v | Some i \<Rightarrow> py_bind (subscript v i) as_axes)"

subsection \<open>Effects of the library calls\<close>

text \<open>
  \<^verbatim>\<open>plt.subplots(1, ncols, figsize=...)\<close> opens a figure with \<open>ncols\<close> empty panels,
  each taking the current colour cycle. A panel handle \<open>AxesV k j\<close> that
  \<^verbatim>\<open>plt.subplots\<close> returned always names an existing panel; on any other handle the
  updates below change nothing.
\<close>

definition new_figure :: "(real \<times> real) option \<Rightarrow> nat \<Rightarrow> nat py" where
  "new_figure fs ncols = (\<lambda>s. (Inr (length (figures s)),
     s\<lparr>figures := figures s @
        [\<lparr>figsize = fs,
          panels = replicate ncols
            \<lparr>xlabel = [], ylabel = [], cycle = prop_cycle s, curves = [], legend = None\<rparr>\<rparr>]\<rparr>))"

definition update_axes :: "nat \<Rightarrow> nat \<Rightarrow> (axes \<Rightarrow> axes) \<Rightarrow> unit py" where
  "update_axes k j f = (\<lambda>s. (Inr (),
     s\<lparr>figures := (figures s)
        [k := (figures s ! k)\<lparr>panels := (panels (figures s ! k))
                                 [j := f (panels (figures s ! k) ! j)]\<rparr>]\<rparr>))"

text \<open>
  \<^verbatim>\<open>ax.plot(...)\<close> appends curves to the panel and returns handles to the new lines.
\<close>

definition add_curves :: "nat \<Rightarrow> nat \<Rightarrow> (real list \<times> real list) list \<Rightarrow> pyval py" where
  "add_curves k j cs = (\<lambda>s.
     let n = length (curves (panels (figures s ! k) ! j)) in
     case update_axes k j (\<lambda>a. a\<lparr>curves := curves a @ cs\<rparr>) s of
       (_, s') \<Rightarrow> (Inr (ListV (map (LineV k j) [n..<n + length cs])), s'))"

text \<open>\<^verbatim>\<open>np.random.seed(n)\<close> and \<^verbatim>\<open>np.random.randn(n)\<close>.\<close>

definition seed_rng :: "nat \<Rightarrow> unit py" where
  "seed_rng n = (\<lambda>s. (Inr (), s\<lparr>rng := \<lparr>source = Seeded n, drawn = 0\<rparr>\<rparr>))"

definition randn :: "library \<Rightarrow> nat \<Rightarrow> real list py" where
  "randn L n = (\<lambda>s.
     (Inr (map (standard_normal L (source (rng s))) [drawn (rng s)..<drawn (rng s) + n]),
      s\<lparr>rng := (rng s)\<lparr>drawn := drawn (rng s) + n\<rparr>\<rparr>))"

text \<open>The value of a cell's last expression is shown as \<^verbatim>\<open>Out[n]\<close>.\<close>

definition display :: "pyval \<Rightarrow> unit py" where
  "display v = (\<lambda>s. (Inr (), s\<lparr>displayed := displayed s @ [v]\<rparr>))"

text \<open>Assigning to \<^verbatim>\<open>rcParams['axes.prop_cycle']\<close>.\<close>

definition set_prop_cycle :: "rgba list \<Rightarrow> unit py" where
  "set_prop_cycle cs = (\<lambda>s. (Inr (), s\<lparr>prop_cycle := cs\<rparr>))"

subsection \<open>The statements of the cells\<close>

text \<open>
  An import binds a name to a library object. Loading the module is an action of
  the library and is recorded in the trace.
\<close>

definition stmt_import :: "library \<Rightarrow> string \<Rightarrow> string \<Rightarrow> string \<Rightarrow> unit py" where
  "stmt_import L mdl x qual = lib_call L (''import '' @ mdl) (assign x (ObjV qual))"

text \<open>Lines 29 and 46: \<^verbatim>\<open>rv = norm(loc=4, scale=1.5)\<close>.\<close>

definition stmt_rv :: "library \<Rightarrow> unit py" where
  "stmt_rv L =
     py_bind (lookup ''norm'') (\<lambda>f.
     py_bind (call_of ''scipy.stats.norm'' f) (\<lambda>_.
     py_bind (lib_call L ''scipy.stats.norm'' (py_return (FrozenV 4 (3 / 2)))) (\<lambda>rv.
     assign ''rv'' rv)))"

text \<open>
  Lines 30 and 47: \<^verbatim>\<open>t = np.linspace(0, norm.ppf(0.99, loc=4, scale=1.5), 100)\<close>.
\<close>

definition stmt_t_quantile :: "library \<Rightarrow> unit py" where
  "stmt_t_quantile L =
     py_bind (the_module ''np'' ''numpy'') (\<lambda>_.
     py_bind (the_module ''norm'' ''scipy.stats.norm'') (\<lambda>_.
     py_bind (lib_call L ''scipy.stats.norm.ppf''
                (py_return (norm_ppf L (99 / 100) 4 (3 / 2)))) (\<lambda>q.
     py_bind (lib_call L ''numpy.linspace'' (py_return (linspace 0 q 100))) (\<lambda>g.
     assign ''t'' (ArrayV g)))))"

text \<open>Line 127: \<^verbatim>\<open>t = np.linspace(0, 20, 200)\<close>.\<close>

definition stmt_t_risk :: "library \<Rightarrow> unit py" where
  "stmt_t_risk L =
     py_bind (the_module ''np'' ''numpy'') (\<lambda>_.
     py_bind (lib_call L ''numpy.linspace'' (py_return (linspace 0 20 200))) (\<lambda>g.
     assign ''t'' (ArrayV g)))"

text \<open>
  Lines 31, 48, 128 and 194: \<^verbatim>\<open>fig, ax = plt.subplots(1, ncols, figsize=...)\<close>. With
  one panel \<^verbatim>\<open>ax\<close> is the panel itself, otherwise the array of the panels.
\<close>

definition stmt_subplots :: "library \<Rightarrow> nat \<Rightarrow> (real \<times> real) option \<Rightarrow> unit py" where
  "stmt_subplots L ncols fs =
     py_bind (the_module ''plt'' ''matplotlib.pyplot'') (\<lambda>_.
     py_bind (lib_call L ''matplotlib.pyplot.subplots'' (new_figure fs ncols)) (\<lambda>k.
     py_bind (assign ''fig'' (FigureV k)) (\<lambda>_.
     assign ''ax'' (if ncols = 1 then AxesV k 0 else ListV (map (AxesV k) [0..<ncols])))))"

text \<open>\<^verbatim>\<open>ax.set_xlabel(txt)\<close>, \<^verbatim>\<open>ax[i].set_xlabel(txt)\<close> and the same for the y axis.\<close>

definition stmt_set_xlabel :: "library \<Rightarrow> nat option \<Rightarrow> string \<Rightarrow> unit py" where
  "stmt_set_xlabel L tgt txt =
     py_bind (axes_expr tgt) (\<lambda>(k, j).
     lib_call L ''Axes.set_xlabel'' (update_axes k j (\<lambda>a. a\<lparr>xlabel := txt\<rparr>)))"

definition stmt_set_ylabel :: "library \<Rightarrow> nat option \<Rightarrow> string \<Rightarrow> unit py" where
  "stmt_set_ylabel L tgt txt =
     py_bind (axes_expr tgt) (\<lambda>(k, j).
     lib_call L ''Axes.set_ylabel'' (update_axes k j (\<lambda>a. a\<lparr>ylabel := txt\<rparr>)))"

text \<open>
  \<^verbatim>\<open>ax.plot(t, y)\<close> and \<^verbatim>\<open>ax[i].plot(t, y)\<close> for an expression \<open>y\<close>: Python evaluates
  the target, then \<^verbatim>\<open>t\<close>, then \<open>y\<close>, then calls \<^verbatim>\<open>plot\<close>.
\<close>

definition stmt_plot :: "library \<Rightarrow> nat option \<Rightarrow> real list py \<Rightarrow> unit py" where
  "stmt_plot L tgt yexpr =
     py_bind (axes_expr tgt) (\<lambda>(k, j).
     py_bind (lookup ''t'') (\<lambda>t.
     py_bind yexpr (\<lambda>ys.
     py_bind (as_array t) (\<lambda>ts.
     py_bind (lib_call L ''Axes.plot'' (add_curves k j [(ts, ys)])) (\<lambda>_.
     py_return ())))))"

text \<open>Line 34, the plotted values: \<^verbatim>\<open>rv.cdf(t)\<close>.\<close>

definition expr_cdf :: "library \<Rightarrow> real list py" where
  "expr_cdf L =
     py_bind (lookup ''rv'') (\<lambda>rv.
     py_bind (as_frozen rv) (\<lambda>(loc, scale).
     py_bind (lookup ''t'') (\<lambda>t.
     py_bind (as_array t) (\<lambda>xs.
     lib_call L ''rv_frozen.cdf'' (py_return (map (\<lambda>x. norm_cdf L x loc scale) xs))))))"

text \<open>Line 51, the plotted values: \<^verbatim>\<open>1 - rv.cdf(t)\<close>.\<close>

definition expr_sf :: "library \<Rightarrow> real list py" where
  "expr_sf L = py_bind (expr_cdf L) (\<lambda>F. py_return (map (\<lambda>y. 1 - y) F))"

text \<open>Line 132, the plotted values: \<^verbatim>\<open>np.ones(len(t)) * m0\<close>.\<close>

definition expr_mortality :: "library \<Rightarrow> real list py" where
  "expr_mortality L =
     py_bind (the_module ''np'' ''numpy'') (\<lambda>_.
     py_bind (lookup ''t'') (\<lambda>t.
     py_bind (as_array t) (\<lambda>ts.
     py_bind (lib_call L ''numpy.ones'' (py_return (ones (length ts)))) (\<lambda>os.
     py_bind (lookup ''m0'') (\<lambda>v.
     py_bind (as_float v) (\<lambda>m.
     py_return (map (\<lambda>y. y * m) os)))))))"

text \<open>Line 136, the plotted values: \<^verbatim>\<open>np.exp(-m0*t)\<close>.\<close>

definition expr_survival :: "library \<Rightarrow> real list py" where
  "expr_survival L =
     py_bind (the_module ''np'' ''numpy'') (\<lambda>_.
     py_bind (lookup ''m0'') (\<lambda>v.
     py_bind (as_float v) (\<lambda>m.
     py_bind (lookup ''t'') (\<lambda>t.
     py_bind (as_array t) (\<lambda>ts.
     lib_call L ''numpy.exp'' (py_return (survival_curve m ts)))))))"

text \<open>Line 171: \<^verbatim>\<open>load_waltons()\<close>, the last expression of its cell.\<close>

definition stmt_load_waltons :: "library \<Rightarrow> unit py" where
  "stmt_load_waltons L =
     py_bind (lookup ''load_waltons'') (\<lambda>f.
     py_bind (call_of ''lifelines.datasets.load_waltons'' f) (\<lambda>_.
     py_bind (lib_call L ''lifelines.datasets.load_waltons''
                (py_return (FrameV (waltons L)))) display))"

text \<open>Line 180: \<^verbatim>\<open>np.random.seed(19680801)\<close>.\<close>

definition stmt_seed :: "library \<Rightarrow> unit py" where
  "stmt_seed L =
     py_bind (the_module ''np'' ''numpy'') (\<lambda>_.
     lib_call L ''numpy.random.seed'' (seed_rng 19680801))"

text \<open>
  Line 183:
  \<^verbatim>\<open>data = [np.logspace(0, 1, 100) + np.random.randn(100) + ii for ii in range(N)]\<close>.
  \<open>expr_row\<close> is the element expression; both arrays have 100 entries, so the
  sum pairs them up entry by entry.
\<close>

definition expr_row :: "library \<Rightarrow> nat \<Rightarrow> pyval py" where
  "expr_row L ii =
     py_bind (the_module ''np'' ''numpy'') (\<lambda>_.
     py_bind (lib_call L ''numpy.logspace'' (py_return (logspace 0 1 100))) (\<lambda>a.
     py_bind (the_module ''np'' ''numpy'') (\<lambda>_.
     py_bind (lib_call L ''numpy.random.randn'' (randn L 100)) (\<lambda>b.
     py_return (ArrayV (map (\<lambda>x. x + real ii) (map2 (+) a b)))))))"

fun py_map :: "('a \<Rightarrow> 'b py) \<Rightarrow> 'a list \<Rightarrow> 'b list py" where
  "py_map f [] = py_return []"
| "py_map f (x # xs) =
     py_bind (f x) (\<lambda>y. py_bind (py_map f xs) (\<lambda>ys. py_return (y # ys)))"

definition stmt_data :: "library \<Rightarrow> unit py" where
  "stmt_data L =
     py_bind (lookup ''N'') (\<lambda>v.
     py_bind (as_int v) (\<lambda>n.
     py_bind (py_map (expr_row L) [0..<nat n]) (\<lambda>rows.
     assign ''data'' (ListV rows))))"

text \<open>
  Line 184: \<^verbatim>\<open>data = np.array(data).T\<close>. The model covers a list of rows of one
  length (what line 183 binds) and a two-dimensional array.
\<close>

definition as_rows :: "pyval \<Rightarrow> real list list py" where
  "as_rows v = (case v of
       ListV vs \<Rightarrow> py_bind (py_map as_array vs) (\<lambda>rows.
         if list_all (\<lambda>r. length r = length (hd rows)) rows then py_return rows
         else py_raise (ValueError ''inhomogeneous shape''))
     | Array2V rows \<Rightarrow> py_return rows
     | _ \<Rightarrow> py_raise (TypeError ''array''))"

definition stmt_transpose :: "library \<Rightarrow> unit py" where
  "stmt_transpose L =
     py_bind (the_module ''np'' ''numpy'') (\<lambda>_.
     py_bind (lookup ''data'') (\<lambda>d.
     py_bind (as_rows d) (\<lambda>rows.
     py_bind (lib_call L ''numpy.array'' (py_return rows)) (\<lambda>a.
     assign ''data'' (Array2V (transpose a))))))"

text \<open>Line 185: \<^verbatim>\<open>cmap = plt.cm.coolwarm\<close>.\<close>

definition stmt_cmap :: "unit py" where
  "stmt_cmap =
     py_bind (the_module ''plt'' ''matplotlib.pyplot'') (\<lambda>_.
     assign ''cmap'' (ObjV ''matplotlib.cm.coolwarm''))"

text \<open>
  Line 186: \<^verbatim>\<open>rcParams['axes.prop_cycle'] = cycler(color=cmap(np.linspace(0, 1, N)))\<close>.
  Python evaluates the right-hand side first: \<^verbatim>\<open>cycler\<close>, then its argument
  (\<^verbatim>\<open>cmap\<close>, \<^verbatim>\<open>np\<close>, \<^verbatim>\<open>N\<close>), and only then the target \<^verbatim>\<open>rcParams\<close>.
\<close>

definition stmt_prop_cycle :: "library \<Rightarrow> unit py" where
  "stmt_prop_cycle L =
     py_bind (lookup ''cycler'') (\<lambda>cy.
     py_bind (lookup ''cmap'') (\<lambda>cm.
     py_bind (the_module ''np'' ''numpy'') (\<lambda>_.
     py_bind (lookup ''N'') (\<lambda>v.
     py_bind (as_int v) (\<lambda>n.
     py_bind (if n < 0 then py_raise (ValueError ''linspace'')
              else lib_call L ''numpy.linspace'' (py_return (linspace 0 1 (nat n)))) (\<lambda>g.
     py_bind (call_of ''matplotlib.cm.coolwarm'' cm) (\<lambda>_.
     py_bind (lib_call L ''matplotlib.cm.coolwarm''
                (py_return (map (coolwarm L) g))) (\<lambda>cols.
     py_bind (call_of ''cycler'' cy) (\<lambda>_.
     py_bind (lib_call L ''cycler'' (py_return cols)) (\<lambda>c.
     py_bind (lookup ''rcParams'') (\<lambda>rc.
     py_bind (call_of ''matplotlib.rcParams'' rc) (\<lambda>_.
     lib_call L ''matplotlib.rcParams.__setitem__'' (set_prop_cycle c)))))))))))))"

text \<open>
  Lines 190 to 192:
  \<^verbatim>\<open>custom_lines = [Line2D([0], [0], color=cmap(x), lw=4) for x in 0., .5, 1.]\<close>,
  written out as three list elements in the source.
\<close>

definition expr_line2d :: "library \<Rightarrow> real \<Rightarrow> pyval py" where
  "expr_line2d L x =
     py_bind (lookup ''Line2D'') (\<lambda>cls.
     py_bind (lookup ''cmap'') (\<lambda>cm.
     py_bind (call_of ''matplotlib.cm.coolwarm'' cm) (\<lambda>_.
     py_bind (lib_call L ''matplotlib.cm.coolwarm'' (py_return (coolwarm L x))) (\<lambda>c.
     py_bind (call_of ''matplotlib.lines.Line2D'' cls) (\<lambda>_.
     lib_call L ''matplotlib.lines.Line2D''
       (py_return (ArtistV \<lparr>xdata = [0], ydata = [0], color = c, lw = 4\<rparr>)))))))"

definition stmt_custom_lines :: "library \<Rightarrow> unit py" where
  "stmt_custom_lines L =
     py_bind (py_map (expr_line2d L) [0, 1 / 2, 1]) (\<lambda>vs.
     assign ''custom_lines'' (ListV vs))"

text \<open>
  Line 195: \<^verbatim>\<open>lines = ax.plot(data)\<close>. A two-dimensional array is plotted column
  by column against the row index.
\<close>

definition stmt_plot_data :: "library \<Rightarrow> unit py" where
  "stmt_plot_data L =
     py_bind (axes_expr None) (\<lambda>(k, j).
     py_bind (lookup ''data'') (\<lambda>d.
     py_bind (case d of
         Array2V rows \<Rightarrow>
           py_return (map (\<lambda>col. (map real [0..<length col], col)) (transpose rows))
       | ArrayV ys \<Rightarrow> py_return [(map real [0..<length ys], ys)]
       | _ \<Rightarrow> py_raise (TypeError ''plot'')) (\<lambda>cs.
     py_bind (lib_call L ''Axes.plot'' (add_curves k j cs)) (\<lambda>ls.
     assign ''lines'' ls))))"

text \<open>Line 196: \<^verbatim>\<open>ax.legend(custom_lines, ['Cold', 'Medium', 'Hot'])\<close>.\<close>

definition as_artist :: "pyval \<Rightarrow> line2d py" where
  "as_artist v = (case v of ArtistV a \<Rightarrow> py_return a | _ \<Rightarrow> py_raise (TypeError ''artist''))"

definition as_artists :: "pyval \<Rightarrow> line2d list py" where
  "as_artists v = (case v of ListV vs \<Rightarrow> py_map as_artist vs
     | _ \<Rightarrow> py_raise (TypeError ''artists''))"

definition stmt_legend :: "library \<Rightarrow> unit py" where
  "stmt_legend L =
     py_bind (axes_expr None) (\<lambda>(k, j).
     py_bind (lookup ''custom_lines'') (\<lambda>v.
     py_bind (as_artists v) (\<lambda>hs.
     lib_call L ''Axes.legend''
       (update_axes k j (\<lambda>a. a\<lparr>legend := Some (hs, [''Cold'', ''Medium'', ''Hot''])\<rparr>)))))"

subsection \<open>Values the cells compute\<close>

text \<open>Lines 30 and 47: the grid bound to \<^verbatim>\<open>t\<close> in cells In[1] and In[2].\<close>

definition quantile_grid :: "library \<Rightarrow> real list" where
  "quantile_grid L = linspace 0 (norm_ppf L (99 / 100) 4 (3 / 2)) 100"

text \<open>Line 34: the values \<^verbatim>\<open>rv.cdf(t)\<close> plotted by In[1].\<close>

definition death_curve :: "library \<Rightarrow> real list" where
  "death_curve L = map (\<lambda>x. norm_cdf L x 4 (3 / 2)) (quantile_grid L)"

text \<open>Line 51: the values \<^verbatim>\<open>1 - rv.cdf(t)\<close> plotted by In[2].\<close>

definition complement_curve :: "library \<Rightarrow> real list" where
  "complement_curve L = map (\<lambda>y. 1 - y) (death_curve L)"

text \<open>
  Line 183: the rows the comprehension yields for the indices \<open>is\<close> when the
  generator was initialised by \<open>src\<close> and has drawn \<open>d\<close> variates before; each row
  takes the next 100 variates.
\<close>

fun noisy_rows :: "library \<Rightarrow> rng_source \<Rightarrow> nat \<Rightarrow> nat list \<Rightarrow> real list list" where
  "noisy_rows L src d [] = []"
| "noisy_rows L src d (ii # is) =
     map (\<lambda>x. x + real ii)
       (map2 (+) (logspace 0 1 100) (map (standard_normal L src) [d..<d + 100]))
     # noisy_rows L src (d + 100) is"

text \<open>Lines 180 to 184: the array bound to \<^verbatim>\<open>data\<close>, 100 rows of 10 columns.\<close>

definition synthetic_data :: "library \<Rightarrow> real list list" where
  "synthetic_data L = transpose (noisy_rows L (Seeded 19680801) 0 [0..<10])"

subsection \<open>The six cells\<close>

text \<open>Cell In[1], lines 25 to 34.\<close>

definition In1 :: "library \<Rightarrow> unit py" where
  "In1 L = py_seq
     [stmt_import L ''scipy.stats'' ''norm'' ''scipy.stats.norm'',
      stmt_import L ''matplotlib.pyplot'' ''plt'' ''matplotlib.pyplot'',
      stmt_import L ''numpy'' ''np'' ''numpy'',
      stmt_rv L,
      stmt_t_quantile L,
      stmt_subplots L 1 None,
      stmt_set_xlabel L None ''Time'',
      stmt_set_ylabel L None ''Probability to die'',
      stmt_plot L None (expr_cdf L)]"

text \<open>Cell In[2], lines 46 to 51.\<close>

definition In2 :: "library \<Rightarrow> unit py" where
  "In2 L = py_seq
     [stmt_rv L,
      stmt_t_quantile L,
      stmt_subplots L 1 None,
      stmt_set_xlabel L None ''Time'',
      stmt_set_ylabel L None ''Probability to survive'',
      stmt_plot L None (expr_sf L)]"

text \<open>Cell In[3], lines 127 to 138.\<close>

definition In3 :: "library \<Rightarrow> unit py" where
  "In3 L = py_seq
     [stmt_t_risk L,
      stmt_subplots L 2 (Some (12, 5)),
      assign ''m0'' (FloatV m0),
      stmt_plot L (Some 0) (expr_mortality L),
      stmt_set_xlabel L (Some 0) ''Time'',
      stmt_set_ylabel L (Some 0) ''Mortality risk'',
      stmt_plot L (Some 1) (expr_survival L),
      stmt_set_xlabel L (Some 1) ''Time'',
      stmt_set_ylabel L (Some 1) ''Probability of survival'']"

text \<open>Cell In[4], line 165.\<close>

definition In4 :: "library \<Rightarrow> unit py" where
  "In4 L = py_seq
     [stmt_import L ''lifelines.datasets'' ''load_waltons'' ''lifelines.datasets.load_waltons'']"

text \<open>Cell In[5], line 171.\<close>

definition In5 :: "library \<Rightarrow> unit py" where
  "In5 L = py_seq [stmt_load_waltons L]"

text \<open>Cell In[6], lines 180 to 196.\<close>

definition In6 :: "library \<Rightarrow> unit py" where
  "In6 L = py_seq
     [stmt_seed L,
      assign ''N'' (IntV 10),
      stmt_data L,
      stmt_transpose L,
      stmt_cmap,
      stmt_prop_cycle L,
      stmt_import L ''matplotlib.lines'' ''Line2D'' ''matplotlib.lines.Line2D'',
      stmt_custom_lines L,
      stmt_subplots L 1 (Some (10, 5)),
      stmt_plot_data L,
      stmt_legend L]"

definition notebook :: "(library \<Rightarrow> unit py) list" where
  "notebook = [In1, In2, In3, In4, In5, In6]"

text \<open>Running cells one after the other in one kernel; the run stops at a cell that raises.\<close>

definition run_cells :: "library \<Rightarrow> (library \<Rightarrow> unit py) list \<Rightarrow> unit py" where
  "run_cells L cs = py_seq (map (\<lambda>c. c L) cs)"

text \<open>
  A kernel that has run nothing: no name is bound, the generator is initialised
  from entropy, the colour cycle is Matplotlib's default \<open>dflt\<close>.
\<close>

definition fresh_kernel :: "rgba list \<Rightarrow> nat \<Rightarrow> state" where
  "fresh_kernel dflt ent =
     \<lparr>env = (\<lambda>_. None), rng = \<lparr>source = Entropy ent, drawn = 0\<rparr>, prop_cycle = dflt,
      figures = [], displayed = [], calls = []\<rparr>"

subsection \<open>Frames and traces\<close>


text \<open>The library calls made on the way from state \<open>s\<close> to state \<open>s'\<close>.\<close>

definition new_calls :: "state \<Rightarrow> state \<Rightarrow> (string \<times> error option) list" where
  "new_calls s s' = drop (length (calls s)) (calls s')"

definition clean :: "(string \<times> error option) list \<Rightarrow> bool" where
  "clean tr = list_all (\<lambda>c. snd c = None) tr"

text \<open>
  \<open>propagates m\<close>: \<open>m\<close> only appends to the trace, and if a library call raised,
  it is the last call made and its exception is the outcome of \<open>m\<close>.
\<close>

definition propagates :: "'a py \<Rightarrow> bool" where
  "propagates m = (\<forall>s. \<exists>tr. calls (snd (m s)) = calls s @ tr \<and>
     (clean tr \<or> (\<exists>pre nm e. tr = pre @ [(nm, Some e)] \<and> clean pre \<and> fst (m s) = Inl e)))"




subsection \<open>Concrete inputs\<close>

text \<open>
  A library in which no call raises, with simple stand-ins for the numerics, and
  one in which loading the dataset fails. They serve to instantiate the theorems
  below at concrete inputs; no theorem depends on the stand-ins.
\<close>

definition stub_library :: library where
  "stub_library =
     \<lparr>norm_ppf = (\<lambda>q loc scale. loc + scale * (2326 / 1000)),
      norm_cdf = (\<lambda>x loc scale. if x < loc then 0 else 1),
      standard_normal = (\<lambda>src k. 0),
      coolwarm = (\<lambda>x. (x, 0, 1 - x, 1)),
      waltons = [(''T'', [''6.0'', ''13.0'']), (''E'', [''1'', ''1'']),
                 (''group'', [''miR-137'', ''miR-137''])],
      faults = (\<lambda>k nm. None)\<rparr>"

definition failing_library :: library where
  "failing_library = stub_library
     \<lparr>faults := (\<lambda>k nm. if nm = ''lifelines.datasets.load_waltons''
                          then Some (LibraryError ''FileNotFoundError'') else None)\<rparr>"


section \<open>Properties\<close>

subsection \<open>The grid of \<open>linspace\<close>\<close>

lemma length_linspace: "length (linspace a b n) = n"
  by (simp add: linspace_def)

lemma linspace_nth:
  assumes "2 \<le> n" and "i < n"
  shows "linspace a b n ! i = a + real i * (b - a) / real (n - 1)"
proof (cases "i = n - 1")
  case True
  with assms have "linspace a b n ! i = b"
    by (simp add: linspace_def)
  moreover from assms True have "real i * (b - a) / real (n - 1) = b - a"
    by simp
  ultimately show ?thesis by simp
next
  case False
  with assms show ?thesis
    by (simp add: linspace_def algebra_simps)
qed

lemma risk_grid_nth: "i < 200 \<Longrightarrow> risk_grid ! i = real i * 20 / 199"
  unfolding risk_grid_def by (simp add: linspace_nth)

lemma length_risk_grid: "length risk_grid = 200"
  by (simp add: risk_grid_def length_linspace)

lemma survival_curve_nth:
  "i < 200 \<Longrightarrow> survival_curve m0 risk_grid ! i = exp (- (real i * 2 / 199))"
  by (simp add: survival_curve_def survival_def length_risk_grid risk_grid_nth m0_def)

subsection \<open>C1: the hazard equation of the constant-risk model\<close>

lemma survival_deriv:
  "(survival m has_real_derivative - m * survival m x) (at x)"
  unfolding survival_def
  by (auto intro!: derivative_eq_intros)

text \<open>
  C1. With \<open>m0 = 0.1\<close> as in cell In[3], the survival function
  \<open>S(t) = exp (- m0 * t)\<close> is differentiable at every \<open>t \<ge> 0\<close> and
  \<open>- S'(t) / S(t) = m0\<close> there.
\<close>

theorem constant_hazard_equation:
  assumes "0 \<le> x"
  shows "\<exists>d. (survival m0 has_real_derivative d) (at x) \<and> - d / survival m0 x = m0"
proof -
  have "survival m0 x \<noteq> 0"
    by (simp add: survival_def)
  then have "- (- m0 * survival m0 x) / survival m0 x = m0"
    by simp
  with survival_deriv [of m0 x] show ?thesis
    by blast
qed

theorem constant_hazard_equation_witness:
  "(0::real) \<le> 3 \<and>
   (\<exists>d. (survival m0 has_real_derivative d) (at 3) \<and> - d / survival m0 3 = m0)"
  using constant_hazard_equation [of 3] by simp

subsection \<open>C10: the survival curve of cell In[3]\<close>

text \<open>
  C10. The values \<open>exp (- 0.1 * t)\<close> that cell In[3] computes over the grid
  \<open>linspace 0 20 200\<close> all lie in \<open>(0, 1]\<close>, the first one (at \<open>t = 0\<close>) is \<open>1\<close>,
  and they strictly decrease along the grid.
\<close>

theorem survival_curve_invariant:
  "length (survival_curve m0 risk_grid) = 200 \<and>
   risk_grid ! 0 = 0 \<and>
   survival_curve m0 risk_grid ! 0 = 1 \<and>
   (\<forall>i < 200. 0 < survival_curve m0 risk_grid ! i \<and> survival_curve m0 risk_grid ! i \<le> 1) \<and>
   (\<forall>i j. i < j \<and> j < 200 \<longrightarrow>
      survival_curve m0 risk_grid ! j < survival_curve m0 risk_grid ! i)"
proof (intro conjI allI impI)
  show "length (survival_curve m0 risk_grid) = 200"
    by (simp add: survival_curve_def length_risk_grid)
  show "risk_grid ! 0 = 0"
    by (simp add: risk_grid_nth)
  show "survival_curve m0 risk_grid ! 0 = 1"
    by (simp add: survival_curve_nth)
next
  fix i :: nat
  assume "i < 200"
  then show "0 < survival_curve m0 risk_grid ! i"
    by (simp add: survival_curve_nth)
next
  fix i :: nat
  assume "i < 200"
  then show "survival_curve m0 risk_grid ! i \<le> 1"
    by (simp add: survival_curve_nth)
next
  fix i j :: nat
  assume "i < j \<and> j < 200"
  then show "survival_curve m0 risk_grid ! j < survival_curve m0 risk_grid ! i"
    by (simp add: survival_curve_nth)
qed

theorem survival_curve_invariant_witness:
  "(7::nat) < 8 \<and> (8::nat) < 200 \<and>
   survival_curve m0 risk_grid ! 8 < survival_curve m0 risk_grid ! 7 \<and>
   0 < survival_curve m0 risk_grid ! 8 \<and> survival_curve m0 risk_grid ! 8 \<le> 1"
  using survival_curve_invariant by simp

subsection \<open>Symbolic execution\<close>

lemma lib_call_ok:
  "no_faults L \<Longrightarrow> lib_call L nm body s = body (s\<lparr>calls := calls s @ [(nm, None)]\<rparr>)"
  by (simp add: lib_call_def no_faults_def)

lemmas py_simps = py_return_def py_raise_def py_bind_def lookup_def assign_def attr_of_def
  call_of_def the_module_def as_int_def as_float_def as_array_def as_frozen_def as_axes_def
  subscript_def axes_expr_def new_figure_def update_axes_def add_curves_def seed_rng_def
  display_def set_prop_cycle_def

lemmas stmt_defs = stmt_import_def stmt_rv_def stmt_t_quantile_def stmt_t_risk_def
  stmt_subplots_def stmt_set_xlabel_def stmt_set_ylabel_def stmt_plot_def expr_cdf_def
  expr_sf_def expr_mortality_def expr_survival_def stmt_load_waltons_def stmt_seed_def
  expr_row_def stmt_data_def stmt_transpose_def stmt_cmap_def stmt_prop_cycle_def
  expr_line2d_def stmt_custom_lines_def stmt_plot_data_def stmt_legend_def

lemma expr_row_result:
  assumes "no_faults L" and "env s ''np'' = Some (ObjV ''numpy'')"
  shows "expr_row L ii s =
      (Inr (ArrayV (map (\<lambda>x. x + real ii)
         (map2 (+) (logspace 0 1 100)
            (map (standard_normal L (source (rng s))) [drawn (rng s)..<drawn (rng s) + 100])))),
       s\<lparr>rng := (rng s)\<lparr>drawn := drawn (rng s) + 100\<rparr>,
         calls := calls s @ [(''numpy.logspace'', None), (''numpy.random.randn'', None)]\<rparr>)"
  using assms by (simp add: expr_row_def py_simps lib_call_ok randn_def)

lemma py_map_expr_row:
  assumes "no_faults L"
  shows "env s ''np'' = Some (ObjV ''numpy'') \<Longrightarrow>
    py_map (expr_row L) xs s =
      (Inr (map ArrayV (noisy_rows L (source (rng s)) (drawn (rng s)) xs)),
       s\<lparr>rng := (rng s)\<lparr>drawn := drawn (rng s) + 100 * length xs\<rparr>,
         calls := calls s @ concat (map (\<lambda>_. [(''numpy.logspace'', None),
                                               (''numpy.random.randn'', None)]) xs)\<rparr>)"
proof (induction xs arbitrary: s)
  case Nil
  then show ?case by (simp add: py_return_def)
next
  case (Cons ii xs)
  show ?case
    using Cons.prems assms
    by (simp add: py_bind_def py_return_def expr_row_result Cons.IH add.assoc)
qed

lemma length_noisy_row:
  "r \<in> set (noisy_rows L src d xs) \<Longrightarrow> length r = 100"
  by (induction xs arbitrary: d) (auto simp: logspace_def linspace_def)

lemma py_map_as_array: "py_map as_array (map ArrayV rows) = py_return rows"
  by (induction rows) (simp_all add: as_array_def py_bind_def py_return_def)

lemma as_rows_noisy:
  "as_rows (ListV (map ArrayV (noisy_rows L src d xs))) = py_return (noisy_rows L src d xs)"
proof -
  have "\<forall>r \<in> set (noisy_rows L src d xs). length r = 100"
    by (simp add: length_noisy_row)
  then have "list_all (\<lambda>r. length r = length (hd (noisy_rows L src d xs)))
      (noisy_rows L src d xs)"
    by (cases "noisy_rows L src d xs") (simp_all add: list_all_iff)
  then show ?thesis
    by (simp add: as_rows_def py_map_as_array) (simp add: py_bind_def py_return_def)
qed

subsection \<open>Frame rules\<close>

































subsection \<open>Trace rules\<close>

lemma clean_simps [simp]:
  "clean []" "clean (c # tr) \<longleftrightarrow> snd c = None \<and> clean tr"
  "clean (tr @ tr') \<longleftrightarrow> clean tr \<and> clean tr'"
  by (auto simp: clean_def)

lemma propagates_silent:
  assumes "\<And>s. calls (snd (m s)) = calls s"
  shows "propagates m"
  unfolding propagates_def
proof
  fix s
  have "calls (snd (m s)) = calls s @ [] \<and> clean []"
    by (simp add: assms)
  then show "\<exists>tr. calls (snd (m s)) = calls s @ tr \<and>
     (clean tr \<or> (\<exists>pre nm e. tr = pre @ [(nm, Some e)] \<and> clean pre \<and> fst (m s) = Inl e))"
    by blast
qed

lemma propagates_return: "propagates (py_return x)"
  by (rule propagates_silent) (simp add: py_return_def)

lemma propagates_raise: "propagates (py_raise e)"
  by (rule propagates_silent) (simp add: py_raise_def)

lemma propagates_lookup: "propagates (lookup x)"
  by (rule propagates_silent) (simp add: lookup_def split: option.split)

lemma propagates_assign: "propagates (assign x v)"
  by (rule propagates_silent) (simp add: assign_def)

lemma propagates_effects:
  "propagates (new_figure fs n)" "propagates (update_axes k j u)"
  "propagates (add_curves k j cs)" "propagates (seed_rng n)" "propagates (randn L n)"
  "propagates (display v)" "propagates (set_prop_cycle cyc)"
  by (rule propagates_silent,
      simp add: new_figure_def update_axes_def add_curves_def seed_rng_def randn_def
        display_def set_prop_cycle_def Let_def)+

lemma clean_not_raised: "clean (pre @ [(nm, Some e)]) \<Longrightarrow> False"
  by simp

lemma propagates_bind:
  assumes m: "propagates m" and g: "\<And>x. propagates (g x)"
  shows "propagates (py_bind m g)"
  unfolding propagates_def
proof
  fix s
  obtain r s' where ms: "m s = (r, s')" by (cases "m s")
  from m obtain tr where tr: "calls s' = calls s @ tr"
    and ok: "clean tr \<or> (\<exists>pre nm e. tr = pre @ [(nm, Some e)] \<and> clean pre \<and> r = Inl e)"
    using ms unfolding propagates_def by (metis fst_conv snd_conv)
  show "\<exists>tr. calls (snd (py_bind m g s)) = calls s @ tr \<and>
     (clean tr \<or> (\<exists>pre nm e. tr = pre @ [(nm, Some e)] \<and> clean pre \<and>
        fst (py_bind m g s) = Inl e))"
  proof (cases r)
    case (Inl e)
    with ms have "py_bind m g s = (Inl e, s')"
      by (simp add: py_bind_def)
    with tr ok Inl show ?thesis by auto
  next
    case (Inr x)
    with ok have cl: "clean tr" by auto
    from Inr ms have eq: "py_bind m g s = g x s'"
      by (simp add: py_bind_def)
    from g [of x] obtain tr' where tr': "calls (snd (g x s')) = calls s' @ tr'"
      and ok': "clean tr' \<or> (\<exists>pre nm e. tr' = pre @ [(nm, Some e)] \<and> clean pre \<and>
          fst (g x s') = Inl e)"
      unfolding propagates_def by blast
    from ok' show ?thesis
    proof
      assume "clean tr'"
      with cl tr tr' eq show ?thesis
        by (intro exI [of _ "tr @ tr'"]) simp
    next
      assume "\<exists>pre nm e. tr' = pre @ [(nm, Some e)] \<and> clean pre \<and> fst (g x s') = Inl e"
      then obtain pre nm e where "tr' = pre @ [(nm, Some e)]" "clean pre" "fst (g x s') = Inl e"
        by blast
      with cl tr tr' eq have "calls (snd (py_bind m g s)) = calls s @ (tr @ tr') \<and>
          tr @ tr' = (tr @ pre) @ [(nm, Some e)] \<and> clean (tr @ pre) \<and>
          fst (py_bind m g s) = Inl e"
        by simp
      then show ?thesis by blast
    qed
  qed
qed

lemma propagates_lib_call:
  assumes "propagates body"
  shows "propagates (lib_call L nm body)"
  unfolding propagates_def
proof
  fix s :: state
  let ?s1 = "s\<lparr>calls := calls s @ [(nm, None)]\<rparr>"
  show "\<exists>tr. calls (snd (lib_call L nm body s)) = calls s @ tr \<and>
     (clean tr \<or> (\<exists>pre nm' e. tr = pre @ [(nm', Some e)] \<and> clean pre \<and>
        fst (lib_call L nm body s) = Inl e))"
  proof (cases "faults L (length (calls s)) nm")
    case (Some e)
    then have "calls (snd (lib_call L nm body s)) = calls s @ [(nm, Some e)] \<and>
        [(nm, Some e)] = [] @ [(nm, Some e)] \<and> clean [] \<and> fst (lib_call L nm body s) = Inl e"
      by (simp add: lib_call_def)
    then show ?thesis by blast
  next
    case None
    then have eq: "lib_call L nm body s = body ?s1"
      by (simp add: lib_call_def)
    from assms obtain tr where tr: "calls (snd (body ?s1)) = calls ?s1 @ tr"
      and ok: "clean tr \<or> (\<exists>pre nm' e. tr = pre @ [(nm', Some e)] \<and> clean pre \<and>
          fst (body ?s1) = Inl e)"
      unfolding propagates_def by blast
    from ok show ?thesis
    proof
      assume "clean tr"
      with tr eq show ?thesis
        by (intro exI [of _ "(nm, None) # tr"]) simp
    next
      assume "\<exists>pre nm' e. tr = pre @ [(nm', Some e)] \<and> clean pre \<and> fst (body ?s1) = Inl e"
      then obtain pre nm' e where "tr = pre @ [(nm', Some e)]" "clean pre"
          "fst (body ?s1) = Inl e"
        by blast
      with tr eq have "calls (snd (lib_call L nm body s)) = calls s @ ((nm, None) # tr) \<and>
          (nm, None) # tr = ((nm, None) # pre) @ [(nm', Some e)] \<and> clean ((nm, None) # pre) \<and>
          fst (lib_call L nm body s) = Inl e"
        by simp
      then show ?thesis by blast
    qed
  qed
qed

lemma propagates_case_prod:
  "(\<And>a b. propagates (g a b)) \<Longrightarrow> propagates (case p of (a, b) \<Rightarrow> g a b)"
  by (cases p) simp

lemma propagates_if: "propagates a \<Longrightarrow> propagates b \<Longrightarrow> propagates (if c then a else b)"
  by simp

lemma propagates_attr_of: "propagates (attr_of nm v)"
  by (simp add: attr_of_def propagates_return propagates_raise)

lemma propagates_call_of: "propagates (call_of nm v)"
  by (simp add: call_of_def propagates_return propagates_raise)

lemma propagates_the_module: "propagates (the_module x nm)"
  by (simp add: the_module_def propagates_bind propagates_lookup propagates_attr_of)

lemma propagates_as_int: "propagates (as_int v)"
  by (cases v) (simp_all add: as_int_def propagates_return propagates_raise)

lemma propagates_as_float: "propagates (as_float v)"
  by (cases v) (simp_all add: as_float_def propagates_return propagates_raise)

lemma propagates_as_array: "propagates (as_array v)"
  by (cases v) (simp_all add: as_array_def propagates_return propagates_raise)

lemma propagates_as_frozen: "propagates (as_frozen v)"
  by (cases v) (simp_all add: as_frozen_def propagates_return propagates_raise)

lemma propagates_as_axes: "propagates (as_axes v)"
  by (cases v) (simp_all add: as_axes_def propagates_return propagates_raise)

lemma propagates_as_artist: "propagates (as_artist v)"
  by (cases v) (simp_all add: as_artist_def propagates_return propagates_raise)

lemma propagates_subscript: "propagates (subscript v i)"
  by (cases v) (simp_all add: subscript_def propagates_return propagates_raise)

lemma propagates_axes_expr: "propagates (axes_expr tgt)"
  by (cases tgt)
    (simp_all add: axes_expr_def propagates_bind propagates_lookup propagates_as_axes
       propagates_subscript)

lemma propagates_py_map: "(\<And>x. propagates (g x)) \<Longrightarrow> propagates (py_map g xs)"
  by (induction xs) (simp_all add: propagates_return propagates_bind)

lemma propagates_py_seq:
  "(\<And>m. m \<in> set ms \<Longrightarrow> propagates m) \<Longrightarrow> propagates (py_seq ms)"
  by (induction ms) (simp_all add: propagates_return propagates_bind)

lemma propagates_as_artists: "propagates (as_artists v)"
  by (cases v)
    (simp_all add: as_artists_def propagates_return propagates_raise propagates_py_map
       propagates_as_artist)

lemma propagates_as_rows: "propagates (as_rows v)"
  by (cases v)
    (simp_all add: as_rows_def propagates_return propagates_raise propagates_py_map
       propagates_as_array propagates_bind)

lemma propagates_plot_columns:
  "propagates (case d of
         Array2V rows \<Rightarrow>
           py_return (map (\<lambda>col. (map real [0..<length col], col)) (transpose rows))
       | ArrayV ys \<Rightarrow> py_return [(map real [0..<length ys], ys)]
       | _ \<Rightarrow> py_raise (TypeError ''plot''))"
  by (cases d) (simp_all add: propagates_return propagates_raise)

lemmas propagates_intros = propagates_bind propagates_return propagates_raise
  propagates_case_prod propagates_if propagates_lookup propagates_assign propagates_effects
  propagates_lib_call propagates_attr_of propagates_call_of propagates_the_module
  propagates_as_int propagates_as_float propagates_as_array propagates_as_frozen
  propagates_as_axes propagates_as_artists propagates_as_rows propagates_axes_expr
  propagates_py_map propagates_plot_columns

lemma propagates_In1: "propagates (In1 L)"
  unfolding In1_def stmt_defs
  by (intro propagates_py_seq) (auto intro!: propagates_intros)

lemma propagates_In2: "propagates (In2 L)"
  unfolding In2_def stmt_defs
  by (intro propagates_py_seq) (auto intro!: propagates_intros)

lemma propagates_In3: "propagates (In3 L)"
  unfolding In3_def stmt_defs
  by (intro propagates_py_seq) (auto intro!: propagates_intros)

lemma propagates_In4: "propagates (In4 L)"
  unfolding In4_def stmt_defs
  by (intro propagates_py_seq) (auto intro!: propagates_intros)

lemma propagates_In5: "propagates (In5 L)"
  unfolding In5_def stmt_defs
  by (intro propagates_py_seq) (auto intro!: propagates_intros)

lemma propagates_In6: "propagates (In6 L)"
  unfolding In6_def stmt_defs
  by (intro propagates_py_seq) (auto intro!: propagates_intros)



subsection \<open>What each cell does when no library call raises\<close>

lemma In1_result:
  assumes "no_faults L"
  shows "In1 L s = (Inr (),
    s\<lparr>env := (env s)
        (''norm'' \<mapsto> ObjV ''scipy.stats.norm'', ''plt'' \<mapsto> ObjV ''matplotlib.pyplot'',
         ''np'' \<mapsto> ObjV ''numpy'', ''rv'' \<mapsto> FrozenV 4 (3 / 2),
         ''t'' \<mapsto> ArrayV (quantile_grid L), ''fig'' \<mapsto> FigureV (length (figures s)),
         ''ax'' \<mapsto> AxesV (length (figures s)) 0),
      figures := figures s @
        [\<lparr>figsize = None,
          panels = [\<lparr>xlabel = ''Time'', ylabel = ''Probability to die'',
                     cycle = prop_cycle s,
                     curves = [(quantile_grid L, death_curve L)], legend = None\<rparr>]\<rparr>],
      calls := calls s @
        [(''import scipy.stats'', None), (''import matplotlib.pyplot'', None),
         (''import numpy'', None), (''scipy.stats.norm'', None),
         (''scipy.stats.norm.ppf'', None), (''numpy.linspace'', None),
         (''matplotlib.pyplot.subplots'', None), (''Axes.set_xlabel'', None),
         (''Axes.set_ylabel'', None), (''rv_frozen.cdf'', None), (''Axes.plot'', None)]\<rparr>)"
  using assms
  by (simp add: In1_def stmt_defs py_simps lib_call_ok quantile_grid_def death_curve_def)

lemma In2_result:
  assumes "no_faults L" and "env s ''norm'' = Some (ObjV ''scipy.stats.norm'')"
    and "env s ''np'' = Some (ObjV ''numpy'')"
    and "env s ''plt'' = Some (ObjV ''matplotlib.pyplot'')"
  shows "In2 L s = (Inr (),
    s\<lparr>env := (env s)
        (''rv'' \<mapsto> FrozenV 4 (3 / 2),
         ''t'' \<mapsto> ArrayV (quantile_grid L), ''fig'' \<mapsto> FigureV (length (figures s)),
         ''ax'' \<mapsto> AxesV (length (figures s)) 0),
      figures := figures s @
        [\<lparr>figsize = None,
          panels = [\<lparr>xlabel = ''Time'', ylabel = ''Probability to survive'',
                     cycle = prop_cycle s,
                     curves = [(quantile_grid L, complement_curve L)], legend = None\<rparr>]\<rparr>],
      calls := calls s @
        [(''scipy.stats.norm'', None),
         (''scipy.stats.norm.ppf'', None), (''numpy.linspace'', None),
         (''matplotlib.pyplot.subplots'', None), (''Axes.set_xlabel'', None),
         (''Axes.set_ylabel'', None), (''rv_frozen.cdf'', None), (''Axes.plot'', None)]\<rparr>)"
  using assms
  by (simp add: In2_def stmt_defs py_simps lib_call_ok quantile_grid_def death_curve_def
      complement_curve_def)

lemma In3_result:
  assumes "no_faults L" and "env s ''np'' = Some (ObjV ''numpy'')"
    and "env s ''plt'' = Some (ObjV ''matplotlib.pyplot'')"
  shows "In3 L s = (Inr (),
    s\<lparr>env := (env s)
        (''t'' \<mapsto> ArrayV risk_grid, ''fig'' \<mapsto> FigureV (length (figures s)),
         ''ax'' \<mapsto> ListV [AxesV (length (figures s)) 0, AxesV (length (figures s)) 1],
         ''m0'' \<mapsto> FloatV m0),
      figures := figures s @
        [\<lparr>figsize = Some (12, 5),
          panels = [\<lparr>xlabel = ''Time'', ylabel = ''Mortality risk'',
                     cycle = prop_cycle s,
                     curves = [(risk_grid, mortality_curve m0 risk_grid)], legend = None\<rparr>,
                    \<lparr>xlabel = ''Time'', ylabel = ''Probability of survival'',
                     cycle = prop_cycle s,
                     curves = [(risk_grid, survival_curve m0 risk_grid)], legend = None\<rparr>]\<rparr>],
      calls := calls s @
        [(''numpy.linspace'', None), (''matplotlib.pyplot.subplots'', None),
         (''numpy.ones'', None), (''Axes.plot'', None), (''Axes.set_xlabel'', None),
         (''Axes.set_ylabel'', None), (''numpy.exp'', None), (''Axes.plot'', None),
         (''Axes.set_xlabel'', None), (''Axes.set_ylabel'', None)]\<rparr>)"
  using assms
  by (simp add: In3_def stmt_defs py_simps lib_call_ok risk_grid_def mortality_curve_def
      numeral_2_eq_2)

text \<open>The two panels that In[3] renders: the constant risk and the survival curve.\<close>

lemma In3_panels:
  assumes "no_faults L" and "env s ''np'' = Some (ObjV ''numpy'')"
    and "env s ''plt'' = Some (ObjV ''matplotlib.pyplot'')"
  shows "map curves (panels (last (figures (snd (In3 L s))))) =
    [[(risk_grid, mortality_curve m0 risk_grid)], [(risk_grid, survival_curve m0 risk_grid)]]"
  using assms by (simp add: In3_result)

lemma mortality_curve_nth: "i < 200 \<Longrightarrow> mortality_curve m0 risk_grid ! i = m0"
  by (simp add: mortality_curve_def ones_def length_risk_grid)

lemma In4_result:
  assumes "no_faults L"
  shows "In4 L s = (Inr (),
    s\<lparr>env := (env s)(''load_waltons'' \<mapsto> ObjV ''lifelines.datasets.load_waltons''),
      calls := calls s @ [(''import lifelines.datasets'', None)]\<rparr>)"
  using assms by (simp add: In4_def stmt_defs py_simps lib_call_ok)

lemma In5_result:
  assumes "no_faults L"
    and "env s ''load_waltons'' = Some (ObjV ''lifelines.datasets.load_waltons'')"
  shows "In5 L s = (Inr (),
    s\<lparr>displayed := displayed s @ [FrameV (waltons L)],
      calls := calls s @ [(''lifelines.datasets.load_waltons'', None)]\<rparr>)"
  using assms by (simp add: In5_def stmt_defs py_simps lib_call_ok)

text \<open>Lines 180 to 184 of In[6].\<close>

lemma In6_head_result:
  assumes "no_faults L" and "env s ''np'' = Some (ObjV ''numpy'')"
  shows "py_seq [stmt_seed L, assign ''N'' (IntV 10), stmt_data L, stmt_transpose L] s =
    (Inr (),
     s\<lparr>env := (env s)(''N'' \<mapsto> IntV 10, ''data'' \<mapsto> Array2V (synthetic_data L)),
       rng := \<lparr>source = Seeded 19680801, drawn = 1000\<rparr>,
       calls := calls s @ (''numpy.random.seed'', None) #
         concat (map (\<lambda>_. [(''numpy.logspace'', None), (''numpy.random.randn'', None)])
           [0..<10]) @ [(''numpy.array'', None)]\<rparr>)"
  using assms
  by (simp add: stmt_defs py_simps lib_call_ok py_map_expr_row as_rows_noisy synthetic_data_def)

lemma In6_split:
  "In6 L = py_bind (py_seq [stmt_seed L, assign ''N'' (IntV 10), stmt_data L, stmt_transpose L])
     (\<lambda>_. py_seq
     [stmt_cmap,
      stmt_prop_cycle L,
      stmt_import L ''matplotlib.lines'' ''Line2D'' ''matplotlib.lines.Line2D'',
      stmt_custom_lines L,
      stmt_subplots L 1 (Some (10, 5)),
      stmt_plot_data L,
      stmt_legend L])"
  by (rule ext) (simp add: In6_def py_bind_def py_return_def split: prod.split sum.split)

lemma In6_stops:
  assumes "no_faults L" and "env s ''np'' = Some (ObjV ''numpy'')"
    and "env s ''plt'' = Some (ObjV ''matplotlib.pyplot'')"
    and "env s ''cycler'' = None"
  shows "In6 L s = (Inl (NameError ''cycler''),
     s\<lparr>env := (env s)(''N'' \<mapsto> IntV 10, ''data'' \<mapsto> Array2V (synthetic_data L),
                      ''cmap'' \<mapsto> ObjV ''matplotlib.cm.coolwarm''),
       rng := \<lparr>source = Seeded 19680801, drawn = 1000\<rparr>,
       calls := calls s @ (''numpy.random.seed'', None) #
         concat (map (\<lambda>_. [(''numpy.logspace'', None), (''numpy.random.randn'', None)])
           [0..<10]) @ [(''numpy.array'', None)]\<rparr>)"
proof -
  define s1 where "s1 = s\<lparr>env := (env s)(''N'' \<mapsto> IntV 10, ''data'' \<mapsto> Array2V (synthetic_data L)),
       rng := \<lparr>source = Seeded 19680801, drawn = 1000\<rparr>,
       calls := calls s @ (''numpy.random.seed'', None) #
         concat (map (\<lambda>_. [(''numpy.logspace'', None), (''numpy.random.randn'', None)])
           [0..<10]) @ [(''numpy.array'', None)]\<rparr>"
  have head: "py_seq [stmt_seed L, assign ''N'' (IntV 10), stmt_data L, stmt_transpose L] s =
      (Inr (), s1)"
    unfolding s1_def by (rule In6_head_result [OF assms(1,2)])
  have "In6 L s = py_seq
     [stmt_cmap,
      stmt_prop_cycle L,
      stmt_import L ''matplotlib.lines'' ''Line2D'' ''matplotlib.lines.Line2D'',
      stmt_custom_lines L,
      stmt_subplots L 1 (Some (10, 5)),
      stmt_plot_data L,
      stmt_legend L] s1"
    by (subst In6_split) (simp only: py_bind_def head prod.case sum.case)
  also have "\<dots> = (Inl (NameError ''cycler''),
      s1\<lparr>env := (env s1)(''cmap'' \<mapsto> ObjV ''matplotlib.cm.coolwarm'')\<rparr>)"
    using assms by (simp add: s1_def stmt_defs py_simps)
  finally show ?thesis
    by (simp add: s1_def)
qed


subsection \<open>Runs of the notebook\<close>

lemma no_faults_stub: "no_faults stub_library"
  by (simp add: no_faults_def stub_library_def)

lemma new_calls_append [simp]:
  "calls s' = calls s @ tr \<Longrightarrow> new_calls s s' = tr"
  by (simp add: new_calls_def)

text \<open>The first five cells in document order.\<close>

lemma first_five:
  assumes "no_faults L"
  shows "fst (run_cells L [In1, In2, In3, In4, In5] s) = Inr ()"
    and "env (snd (run_cells L [In1, In2, In3, In4, In5] s)) ''np'' = Some (ObjV ''numpy'')"
    and "env (snd (run_cells L [In1, In2, In3, In4, In5] s)) ''plt'' =
           Some (ObjV ''matplotlib.pyplot'')"
    and "env (snd (run_cells L [In1, In2, In3, In4, In5] s)) ''norm'' =
           Some (ObjV ''scipy.stats.norm'')"
    and "env (snd (run_cells L [In1, In2, In3, In4, In5] s)) ''load_waltons'' =
           Some (ObjV ''lifelines.datasets.load_waltons'')"
    and "env (snd (run_cells L [In1, In2, In3, In4, In5] s)) ''cycler'' = env s ''cycler''"
    and "rng (snd (run_cells L [In1, In2, In3, In4, In5] s)) = rng s"
    and "prop_cycle (snd (run_cells L [In1, In2, In3, In4, In5] s)) = prop_cycle s"
  using assms
  by (simp_all add: run_cells_def py_bind_def py_return_def In1_result In2_result In3_result
      In4_result In5_result)

lemma run_cells_snoc:
  "run_cells L (cs @ [c]) s =
     (case run_cells L cs s of (Inl e, s') \<Rightarrow> (Inl e, s') | (Inr _, s') \<Rightarrow> c L s')"
  by (induction cs arbitrary: s)
    (auto simp: run_cells_def py_bind_def py_return_def split: prod.split sum.split)

lemma notebook_run:
  "run_cells L notebook s =
     (case run_cells L [In1, In2, In3, In4, In5] s of
        (Inl e, s') \<Rightarrow> (Inl e, s') | (Inr _, s') \<Rightarrow> In6 L s')"
  using run_cells_snoc [of L "[In1, In2, In3, In4, In5]" In6 s]
  by (simp add: notebook_def)

lemma notebook_stops:
  assumes "no_faults L" and "env s ''cycler'' = None"
  shows "fst (run_cells L notebook s) = Inl (NameError ''cycler'')"
    and "rng (snd (run_cells L notebook s)) = \<lparr>source = Seeded 19680801, drawn = 1000\<rparr>"
proof -
  obtain r s5 where run: "run_cells L [In1, In2, In3, In4, In5] s = (r, s5)"
    by (cases "run_cells L [In1, In2, In3, In4, In5] s")
  with first_five [OF assms(1), of s] assms(2)
  have "r = Inr ()" "env s5 ''np'' = Some (ObjV ''numpy'')"
    "env s5 ''plt'' = Some (ObjV ''matplotlib.pyplot'')" "env s5 ''cycler'' = None"
    by simp_all
  with run have "run_cells L notebook s = In6 L s5" and
    "fst (In6 L s5) = Inl (NameError ''cycler'')" and
    "rng (snd (In6 L s5)) = \<lparr>source = Seeded 19680801, drawn = 1000\<rparr>"
    using In6_stops [OF assms(1), of s5] by (simp_all add: notebook_run)
  then show "fst (run_cells L notebook s) = Inl (NameError ''cycler'')"
    and "rng (snd (run_cells L notebook s)) = \<lparr>source = Seeded 19680801, drawn = 1000\<rparr>"
    by simp_all
qed

subsection \<open>C5: running the cells in document order\<close>

text \<open>
  C5 says that each of the six cells, run after the cells before it, completes
  without raising. Cells In[1] to In[5] do; cell In[6] does not: line 186 reads
  \<^verbatim>\<open>cycler\<close> (and \<^verbatim>\<open>rcParams\<close>), which no cell imports, and the cell ends
  with \<^verbatim>\<open>NameError\<close>.
\<close>

theorem notebook_stops_at_In6:
  "fst (run_cells stub_library [In1, In2, In3, In4, In5] (fresh_kernel [] 0)) = Inr () \<and>
   fst (run_cells stub_library notebook (fresh_kernel [] 0)) = Inl (NameError ''cycler'')"
  using first_five(1) [OF no_faults_stub] notebook_stops(1) [OF no_faults_stub]
  by (simp add: fresh_kernel_def)

subsection \<open>C4: the state a cell leaves behind\<close>





subsection \<open>C2: which cells are self-contained\<close>





subsection \<open>C3: what a cell takes from earlier cells\<close>




subsection \<open>C6: the actions of the cells\<close>





subsection \<open>C7: exceptions of the library are not handled\<close>

lemma propagates_raised:
  assumes "propagates m" and "(nm, Some e) \<in> set (new_calls s (snd (m s)))"
  shows "fst (m s) = Inl e \<and> last (calls (snd (m s))) = (nm, Some e) \<and>
     take (length (calls s)) (calls (snd (m s))) = calls s"
proof -
  from assms(1) obtain tr where tr: "calls (snd (m s)) = calls s @ tr"
    and ok: "clean tr \<or> (\<exists>pre nm' e'. tr = pre @ [(nm', Some e')] \<and> clean pre \<and>
        fst (m s) = Inl e')"
    unfolding propagates_def by blast
  from tr assms(2) have mem: "(nm, Some e) \<in> set tr"
    by (simp add: new_calls_def)
  then have "\<not> clean tr"
    by (force simp: clean_def list_all_iff)
  with ok obtain pre nm' e' where pre: "tr = pre @ [(nm', Some e')]" "clean pre"
      "fst (m s) = Inl e'"
    by blast
  with mem have "(nm, Some e) = (nm', Some e')"
    by (auto simp: clean_def list_all_iff)
  with pre tr show ?thesis
    by simp
qed

text \<open>
  C7. No cell handles an exception: in every cell, for every library and every
  kernel state, if a library call made by the cell raises \<open>e\<close>, then \<open>e\<close> is the
  outcome of the cell, the raising call is the last thing the cell did, and the
  trace before the cell is untouched.
\<close>

theorem library_exceptions_propagate:
  "\<forall>c \<in> set notebook. \<forall>s nm e.
     (nm, Some e) \<in> set (new_calls s (snd (c L s))) \<longrightarrow>
       fst (c L s) = Inl e \<and> last (calls (snd (c L s))) = (nm, Some e) \<and>
       take (length (calls s)) (calls (snd (c L s))) = calls s"
  using propagates_raised [OF propagates_In1] propagates_raised [OF propagates_In2]
    propagates_raised [OF propagates_In3] propagates_raised [OF propagates_In4]
    propagates_raised [OF propagates_In5] propagates_raised [OF propagates_In6]
  by (simp add: notebook_def)

lemma In5_failing:
  "In5 failing_library (snd (In4 failing_library (fresh_kernel [] 0))) =
     (Inl (LibraryError ''FileNotFoundError''),
      (snd (In4 failing_library (fresh_kernel [] 0)))
        \<lparr>calls := [(''import lifelines.datasets'', None),
           (''lifelines.datasets.load_waltons'', Some (LibraryError ''FileNotFoundError''))]\<rparr>)"
  by (simp add: In4_def In5_def stmt_defs py_simps lib_call_def failing_library_def
      stub_library_def fresh_kernel_def)

theorem library_exceptions_propagate_witness:
  "In5 \<in> set notebook \<and>
   (''lifelines.datasets.load_waltons'', Some (LibraryError ''FileNotFoundError'')) \<in>
     set (new_calls (snd (In4 failing_library (fresh_kernel [] 0)))
       (snd (In5 failing_library (snd (In4 failing_library (fresh_kernel [] 0)))))) \<and>
   fst (In5 failing_library (snd (In4 failing_library (fresh_kernel [] 0)))) =
     Inl (LibraryError ''FileNotFoundError'')"
proof -
  have mem: "In5 \<in> set notebook"
    by (simp add: notebook_def)
  have "calls (snd (In4 failing_library (fresh_kernel [] 0))) =
      [(''import lifelines.datasets'', None)]"
    by (simp add: In4_def stmt_defs py_simps lib_call_def failing_library_def
      stub_library_def fresh_kernel_def)
  then have raised: "(''lifelines.datasets.load_waltons'',
      Some (LibraryError ''FileNotFoundError'')) \<in>
     set (new_calls (snd (In4 failing_library (fresh_kernel [] 0)))
       (snd (In5 failing_library (snd (In4 failing_library (fresh_kernel [] 0))))))"
    by (simp add: In5_failing new_calls_def)
  with mem library_exceptions_propagate [of failing_library] show ?thesis
    by blast
qed

subsection \<open>C8: the survival curve complements the death curve\<close>

lemma length_quantile_grid: "length (quantile_grid L) = 100"
  by (simp add: quantile_grid_def length_linspace)

text \<open>
  C8. When no library call raises, cells In[1] and In[2] bind the same distribution
  \<open>norm(loc=4, scale=1.5)\<close> to \<^verbatim>\<open>rv\<close> and the same grid of 100 points to \<^verbatim>\<open>t\<close>,
  each plots one curve over that grid, and at every point of the grid the value
  plotted by In[2] plus the value plotted by In[1] is 1.
\<close>

theorem survival_complements_death:
  assumes "no_faults L"
  shows "env (snd (In1 L s)) ''rv'' = Some (FrozenV 4 (3 / 2)) \<and>
     env (snd (In2 L (snd (In1 L s)))) ''rv'' = Some (FrozenV 4 (3 / 2)) \<and>
     env (snd (In1 L s)) ''t'' = Some (ArrayV (quantile_grid L)) \<and>
     env (snd (In2 L (snd (In1 L s)))) ''t'' = Some (ArrayV (quantile_grid L)) \<and>
     length (quantile_grid L) = 100 \<and>
     map curves (panels (last (figures (snd (In1 L s))))) =
       [[(quantile_grid L, death_curve L)]] \<and>
     map curves (panels (last (figures (snd (In2 L (snd (In1 L s))))))) =
       [[(quantile_grid L, complement_curve L)]] \<and>
     (\<forall>i < 100. complement_curve L ! i + death_curve L ! i = 1)"
  using assms
  by (simp add: In1_result In2_result length_quantile_grid complement_curve_def death_curve_def)

theorem survival_complements_death_witness:
  "no_faults stub_library \<and> (5::nat) < 100 \<and>
   complement_curve stub_library ! 5 + death_curve stub_library ! 5 = 1 \<and>
   map curves (panels (last (figures
     (snd (In2 stub_library (snd (In1 stub_library (fresh_kernel [] 0)))))))) =
       [[(quantile_grid stub_library, complement_curve stub_library)]]"
  using survival_complements_death [OF no_faults_stub, of "fresh_kernel [] 0"] no_faults_stub
  by simp

subsection \<open>C9: cell In[6] is deterministic\<close>



end
